theory Spec2Isabelle
  imports Main
begin

section \<open>Complex reflection groups: the category's generic algorithms\<close>

text \<open>
  Source: \<^verbatim>\<open>src/sage/categories/complex_reflection_groups.py\<close>.

  The category supplies default methods to any concrete group (``parent'') and to its
  elements. A concrete group supplies the primitives (\<^verbatim>\<open>one\<close>, multiplication,
  \<^verbatim>\<open>index_set\<close>), may supply the optional abstract methods, and may reimplement
  \<^verbatim>\<open>simple_reflection\<close> and the two element methods
  \<^verbatim>\<open>apply_simple_reflection_left\<close> / \<^verbatim>\<open>apply_simple_reflection_right\<close>
  (``at least one of the two methods must be reimplemented'').
\<close>

subsection \<open>Exceptions\<close>

text \<open>
  \<^item> \<open>ValueError a fmt\<close>: \<^verbatim>\<open>raise ValueError(fmt % i)\<close>, the format string and the value
    \<open>a\<close> that its \<^verbatim>\<open>%s\<close> shows;
  \<^item> \<open>TypeError m\<close>: the operator \<^verbatim>\<open>%\<close> refuses its arguments, with the message \<open>m\<close>;
  \<^item> \<open>KeyError i\<close>: a family has no key \<open>i\<close>;
  \<^item> \<open>NotImplementedError m\<close>: the optional abstract method \<open>m\<close> is not supplied;
  \<^item> \<open>UnboundLocalError v\<close>: the local variable \<open>v\<close> is read before any assignment;
  \<^item> \<open>RecursionDepthExceeded\<close>: the interpreter's recursion budget is used up.
\<close>

datatype 'i error =
    ValueError 'i string
  | TypeError string
  | KeyError 'i
  | NotImplementedError string
  | UnboundLocalError string
  | RecursionDepthExceeded

subsection \<open>Labels\<close>

text \<open>
  A label is any value the caller passes: an integer, a string, or a tuple of values.
  The difference matters to \<^verbatim>\<open>fmt % i\<close>, with one \<^verbatim>\<open>%s\<close> in \<^verbatim>\<open>fmt\<close>: a value that is not
  a tuple is the one argument of the format; a tuple is the list of its arguments, so
  that a tuple of one value shows that value and any other tuple raises \<^verbatim>\<open>TypeError\<close>.
\<close>

datatype 'v label = Atom 'v | Tuple "'v label list"

fun format_argument :: "'v label \<Rightarrow> 'v label error + 'v label" where
  "format_argument (Atom v) = Inr (Atom v)"
| "format_argument (Tuple []) = Inl (TypeError ''not enough arguments for format string'')"
| "format_argument (Tuple [a]) = Inr a"
| "format_argument (Tuple (a # b # cs)) =
     Inl (TypeError ''not all arguments converted during string formatting'')"

subsection \<open>The concrete group, as the category sees it\<close>

text \<open>
  The fields ending in \<open>_impl\<close> are the methods a concrete class may or may not define;
  \<open>None\<close> means that the class does not define it, so that the category's default
  (or the abstract method) is what a call reaches. \<open>Irreducible\<close> says whether the group
  is in the subcategory with the axiom of that name.
\<close>

datatype ('a, 'i) crg = CRG
  (one: 'a)
  (mul: "'a \<Rightarrow> 'a \<Rightarrow> 'a")
  (index_set: "'i list")
  (simple_reflection_impl: "('i \<Rightarrow> 'i error + 'a) option")
  (apply_simple_reflection_left_impl: "('a \<Rightarrow> 'i \<Rightarrow> 'i error + 'a) option")
  (apply_simple_reflection_right_impl: "('a \<Rightarrow> 'i \<Rightarrow> 'i error + 'a) option")
  (hyperplane_index_set_impl: "'i list option")
  (distinguished_reflection_impl: "('i \<Rightarrow> 'i error + 'a) option")
  (reflection_index_set_impl: "'i list option")
  (reflection_impl: "('i \<Rightarrow> 'i error + 'a) option")
  (reflection_length_impl: "('a \<Rightarrow> 'i error + int) option")
  (irreducible_components_impl: "('a, 'i) crg list option")
  (Irreducible: bool)

subsection \<open>Library functions the category calls\<close>

text \<open>
  Modelled from the spec: \<^verbatim>\<open>Family(indices, function)\<close> of \<^verbatim>\<open>sage.sets.family\<close> is not
  under \<^verbatim>\<open>src/\<close>. The spec (4.1): a mapping from the index set to the elements obtained by
  the single-index lookup function, iteration order following the index set's own order,
  built whole when requested; a lookup of an index that is not in the index set fails.
  The first lookup that raises ends the construction.
\<close>

fun evaluate_all :: "('i \<Rightarrow> 'e + 'a) \<Rightarrow> 'i list \<Rightarrow> 'e + 'a list" where
  "evaluate_all f [] = Inr []"
| "evaluate_all f (i # I) =
     (case f i of
        Inl e \<Rightarrow> Inl e
      | Inr v \<Rightarrow> (case evaluate_all f I of Inl e \<Rightarrow> Inl e | Inr vs \<Rightarrow> Inr (v # vs)))"

definition Family :: "'i list \<Rightarrow> ('i \<Rightarrow> 'e + 'a) \<Rightarrow> 'e + ('i \<times> 'a) list" where
  "Family indices function =
     (case evaluate_all function indices of Inl e \<Rightarrow> Inl e | Inr vs \<Rightarrow> Inr (zip indices vs))"

definition getitem :: "('i \<times> 'a) list \<Rightarrow> 'i \<Rightarrow> 'i error + 'a" where
  "getitem s i = (case map_of s i of None \<Rightarrow> Inl (KeyError i) | Some v \<Rightarrow> Inr v)"

text \<open>
  Modelled from the spec: \<^verbatim>\<open>self.prod(args)\<close> (of the category of monoids) is not under
  \<^verbatim>\<open>src/\<close>. The spec (4.4): the product of the arguments, in their order; the identity
  for no argument.
\<close>

definition prod :: "('a, 'i) crg \<Rightarrow> 'a list \<Rightarrow> 'a" where
  "prod G args = foldl (mul G) (one G) args"

subsection \<open>Optional abstract methods\<close>

text \<open>
  Modelled from the spec: \<^verbatim>\<open>abstract_method(optional=True)\<close> of \<^verbatim>\<open>sage.misc\<close> is not
  under \<^verbatim>\<open>src/\<close>. The spec (7): calling an optional primitive that the concrete group
  does not supply fails with a ``not implemented'' condition naming the missing capability.
\<close>

definition hyperplane_index_set :: "('a, 'i) crg \<Rightarrow> 'i error + 'i list" where
  "hyperplane_index_set G =
     (case hyperplane_index_set_impl G of
        None \<Rightarrow> Inl (NotImplementedError ''hyperplane_index_set'')
      | Some H \<Rightarrow> Inr H)"

definition distinguished_reflection :: "('a, 'i) crg \<Rightarrow> 'i \<Rightarrow> 'i error + 'a" where
  "distinguished_reflection G i =
     (case distinguished_reflection_impl G of
        None \<Rightarrow> Inl (NotImplementedError ''distinguished_reflection'')
      | Some d \<Rightarrow> d i)"

definition reflection_index_set :: "('a, 'i) crg \<Rightarrow> 'i error + 'i list" where
  "reflection_index_set G =
     (case reflection_index_set_impl G of
        None \<Rightarrow> Inl (NotImplementedError ''reflection_index_set'')
      | Some R \<Rightarrow> Inr R)"

definition reflection :: "('a, 'i) crg \<Rightarrow> 'i \<Rightarrow> 'i error + 'a" where
  "reflection G i =
     (case reflection_impl G of
        None \<Rightarrow> Inl (NotImplementedError ''reflection'')
      | Some r \<Rightarrow> r i)"

definition reflection_length :: "('a, 'i) crg \<Rightarrow> 'a \<Rightarrow> 'i error + int" where
  "reflection_length G self =
     (case reflection_length_impl G of
        None \<Rightarrow> Inl (NotImplementedError ''reflection_length'')
      | Some l \<Rightarrow> l self)"

subsection \<open>Simple reflections: the parent's and the element's defaults\<close>

text \<open>
  The defaults call each other:
  \<^verbatim>\<open>simple_reflection(i)\<close> is \<^verbatim>\<open>self.one().apply_simple_reflection(i)\<close>, whose default
  asks \<^verbatim>\<open>self.parent().simple_reflections()\<close>, a family built from
  \<^verbatim>\<open>simple_reflection\<close>. Where the concrete class reimplements none of them the calls
  never come back; the first argument is the recursion budget left, spent by the call
  of the default \<^verbatim>\<open>simple_reflection\<close>.
\<close>

text \<open>
  Every method with a parameter \<^verbatim>\<open>side\<close> declares it as \<^verbatim>\<open>side = 'right'\<close>: a call that
  does not pass it, as \<^verbatim>\<open>self.one().apply_simple_reflection(i)\<close>, passes this value.
\<close>

definition side_default :: string where
  "side_default = ''right''"

function simple_reflection :: "nat \<Rightarrow> ('a, 'i) crg \<Rightarrow> 'i \<Rightarrow> 'i error + 'a"
  and simple_reflections :: "nat \<Rightarrow> ('a, 'i) crg \<Rightarrow> 'i error + ('i \<times> 'a) list"
  and apply_simple_reflection_left :: "nat \<Rightarrow> ('a, 'i) crg \<Rightarrow> 'a \<Rightarrow> 'i \<Rightarrow> 'i error + 'a"
  and apply_simple_reflection_right :: "nat \<Rightarrow> ('a, 'i) crg \<Rightarrow> 'a \<Rightarrow> 'i \<Rightarrow> 'i error + 'a"
  and apply_simple_reflection ::
    "nat \<Rightarrow> ('a, 'i) crg \<Rightarrow> 'a \<Rightarrow> 'i \<Rightarrow> string \<Rightarrow> 'i error + 'a"
where
  "simple_reflection n G i =
     (case simple_reflection_impl G of
        Some f \<Rightarrow> f i
      | None \<Rightarrow>
          (case n of
             0 \<Rightarrow> Inl RecursionDepthExceeded
           | Suc m \<Rightarrow> apply_simple_reflection m G (one G) i side_default))"
| "simple_reflections n G = Family (index_set G) (\<lambda>i. simple_reflection n G i)"
| "apply_simple_reflection_left n G self i =
     (case apply_simple_reflection_left_impl G of
        Some l \<Rightarrow> l self i
      | None \<Rightarrow>
          (case simple_reflections n G of
             Inl e \<Rightarrow> Inl e
           | Inr s \<Rightarrow> (case getitem s i of Inl e \<Rightarrow> Inl e | Inr t \<Rightarrow> Inr (mul G t self))))"
| "apply_simple_reflection_right n G self i =
     (case apply_simple_reflection_right_impl G of
        Some r \<Rightarrow> r self i
      | None \<Rightarrow>
          (case simple_reflections n G of
             Inl e \<Rightarrow> Inl e
           | Inr s \<Rightarrow> (case getitem s i of Inl e \<Rightarrow> Inl e | Inr t \<Rightarrow> Inr (mul G self t))))"
| "apply_simple_reflection n G self i side =
     (if side = ''right'' then apply_simple_reflection_right n G self i
      else apply_simple_reflection_left n G self i)"
  by pat_completeness auto
termination
  by (relation "measure (\<lambda>x. case x of
        Inl (Inl (n, G, i)) \<Rightarrow> 4 * n
      | Inl (Inr (n, G)) \<Rightarrow> 4 * n + 1
      | Inr (Inl (n, G, self, i)) \<Rightarrow> 4 * n + 2
      | Inr (Inr (Inl (n, G, self, i))) \<Rightarrow> 4 * n + 2
      | Inr (Inr (Inr (n, G, self, i, side))) \<Rightarrow> 4 * n + 3)") auto

declare simple_reflection.simps [simp del]
declare simple_reflections.simps [simp del]
declare apply_simple_reflection_left.simps [simp del]
declare apply_simple_reflection_right.simps [simp del]
declare apply_simple_reflection.simps [simp del]

subsection \<open>Parent methods\<close>

text \<open>
  \<^verbatim>\<open>an_element\<close>: \<^verbatim>\<open>self.prod(self.reflection(i) for i in self.index_set())\<close>.
\<close>

definition an_element :: "('a, 'i) crg \<Rightarrow> 'i error + 'a" where
  "an_element G =
     (case evaluate_all (reflection G) (index_set G) of
        Inl e \<Rightarrow> Inl e
      | Inr ts \<Rightarrow> Inr (prod G ts))"

text \<open>
  \<^verbatim>\<open>irreducible_components\<close>: the concrete class's method when it defines one, the method
  of the subcategory \<^verbatim>\<open>Irreducible\<close> (\<^verbatim>\<open>return [self]\<close>) for a group of that subcategory,
  the optional abstract method otherwise.
\<close>

definition irreducible_components :: "('a, 'i) crg \<Rightarrow> 'i error + ('a, 'i) crg list" where
  "irreducible_components G =
     (case irreducible_components_impl G of
        Some cs \<Rightarrow> Inr cs
      | None \<Rightarrow>
          (if Irreducible G then Inr [G]
           else Inl (NotImplementedError ''irreducible_components'')))"

text \<open>
  Modelled from the spec: \<^verbatim>\<open>nr_irreducible_components\<close> is called by \<^verbatim>\<open>is_irreducible\<close>
  and defined nowhere under \<^verbatim>\<open>src/\<close>. The spec (4.4): the number of irreducible
  components, those being the optional primitive of the concrete group, or \<^verbatim>\<open>[self]\<close>
  when the group declares itself irreducible.
\<close>

definition nr_irreducible_components :: "('a, 'i) crg \<Rightarrow> 'i error + int" where
  "nr_irreducible_components G =
     (case irreducible_components G of
        Inl e \<Rightarrow> Inl e
      | Inr cs \<Rightarrow> Inr (int (length cs)))"

definition is_irreducible :: "('a, 'i) crg \<Rightarrow> 'i error + bool" where
  "is_irreducible G =
     (case nr_irreducible_components G of Inl e \<Rightarrow> Inl e | Inr k \<Rightarrow> Inr (k = 1))"

definition is_reducible :: "('a, 'i) crg \<Rightarrow> 'i error + bool" where
  "is_reducible G =
     (case is_irreducible G of Inl e \<Rightarrow> Inl e | Inr b \<Rightarrow> Inr (\<not> b))"

subsection \<open>Element methods\<close>

definition is_reflection :: "('a, 'i) crg \<Rightarrow> 'a \<Rightarrow> 'i error + bool" where
  "is_reflection G self =
     (case reflection_length G self of Inl e \<Rightarrow> Inl e | Inr l \<Rightarrow> Inr (l = 1))"

fun apply_simple_reflections ::
  "nat \<Rightarrow> ('a, 'i) crg \<Rightarrow> 'a \<Rightarrow> 'i list \<Rightarrow> string \<Rightarrow> 'i error + 'a" where
  "apply_simple_reflections n G self [] side = Inr self"
| "apply_simple_reflections n G self (i # word) side =
     (case apply_simple_reflection n G self i side of
        Inl e \<Rightarrow> Inl e
      | Inr self' \<Rightarrow> apply_simple_reflections n G self' word side)"

definition apply_distinguished_reflection ::
  "('a, 'v label) crg \<Rightarrow> 'a \<Rightarrow> 'v label \<Rightarrow> string \<Rightarrow> 'v label error + 'a" where
  "apply_distinguished_reflection G self i side =
     (case hyperplane_index_set G of
        Inl e \<Rightarrow> Inl e
      | Inr H \<Rightarrow>
          if \<not> i \<in> set H
          then (case format_argument i of
                  Inl e \<Rightarrow> Inl e
                | Inr a \<Rightarrow>
                    Inl (ValueError a ''the given index %s is not an index of a hyperplane''))
          else if side = ''right''
          then (case distinguished_reflection G i of
                  Inl e \<Rightarrow> Inl e
                | Inr t \<Rightarrow> Inr (mul G self t))
          else (case reflection G i of
                  Inl e \<Rightarrow> Inl e
                | Inr t \<Rightarrow> Inr (mul G t self)))"

fun apply_distinguished_reflections ::
  "('a, 'v label) crg \<Rightarrow> 'a \<Rightarrow> 'v label list \<Rightarrow> string \<Rightarrow> 'v label error + 'a" where
  "apply_distinguished_reflections G self [] side = Inr self"
| "apply_distinguished_reflections G self (i # word) side =
     (case apply_distinguished_reflection G self i side of
        Inl e \<Rightarrow> Inl e
      | Inr self' \<Rightarrow> apply_distinguished_reflections G self' word side)"

definition apply_reflection ::
  "('a, 'v label) crg \<Rightarrow> 'a \<Rightarrow> 'v label \<Rightarrow> string \<Rightarrow> 'v label error + 'a" where
  "apply_reflection W self i side =
     (case reflection_index_set W of
        Inl e \<Rightarrow> Inl e
      | Inr R \<Rightarrow>
          if i \<notin> set R
          then (case format_argument i of
                  Inl e \<Rightarrow> Inl e
                | Inr a \<Rightarrow>
                    Inl (ValueError a ''the given index %s is not an index of a reflection''))
          else if side = ''right''
          then (case reflection W i of
                  Inl e \<Rightarrow> Inl e
                | Inr t \<Rightarrow> Inr (mul W self t))
          else (case reflection W i of
                  Inl e \<Rightarrow> Inl e
                | Inr t \<Rightarrow> Inr (mul W t self)))"

fun apply_reflections ::
  "('a, 'v label) crg \<Rightarrow> 'a \<Rightarrow> 'v label list \<Rightarrow> string \<Rightarrow> 'v label error + 'a" where
  "apply_reflections G self [] side = Inr self"
| "apply_reflections G self (i # word) side =
     (case apply_reflection G self i side of
        Inl e \<Rightarrow> Inl e
      | Inr self' \<Rightarrow> apply_reflections G self' word side)"

subsection \<open>Words\<close>

text \<open>
  \<^verbatim>\<open>from_word\<close>: an \<^verbatim>\<open>if\<close>/\<^verbatim>\<open>elif\<close>/\<^verbatim>\<open>elif\<close> chain with no \<^verbatim>\<open>else\<close> binds \<^verbatim>\<open>f\<close>; for any
  other \<^verbatim>\<open>word_type\<close> the \<^verbatim>\<open>return f(word, side='right')\<close> reads an unbound local.
\<close>

definition from_word ::
  "nat \<Rightarrow> ('a, 'v label) crg \<Rightarrow> 'v label list \<Rightarrow> string \<Rightarrow> 'v label error + 'a" where
  "from_word n G word word_type =
     (if word_type = ''simple''
      then apply_simple_reflections n G (one G) word ''right''
      else if word_type = ''distinguished''
      then apply_distinguished_reflections G (one G) word ''right''
      else if word_type = ''all''
      then apply_reflections G (one G) word ''right''
      else Inl (UnboundLocalError ''f''))"

subsection \<open>A specification-level reading of \<^verbatim>\<open>an_element\<close>\<close>

text \<open>
  The spec's words for \<^verbatim>\<open>an_element()\<close>: the product, in index-set order, of the general
  reflections over the reflection index set. To be compared with \<open>an_element\<close> above,
  which is the source's.
\<close>

definition an_element_over_reflection_index_set :: "('a, 'i) crg \<Rightarrow> 'i error + 'a" where
  "an_element_over_reflection_index_set G =
     (case reflection_index_set G of
        Inl e \<Rightarrow> Inl e
      | Inr R \<Rightarrow>
          (case evaluate_all (reflection G) R of
             Inl e \<Rightarrow> Inl e
           | Inr ts \<Rightarrow> Inr (prod G ts)))"

subsection \<open>The laws of the category of groups\<close>

text \<open>
  Every group of the category is a monoid under \<open>mul\<close> with identity \<open>one\<close>
  (\<^verbatim>\<open>super_categories\<close> is \<^verbatim>\<open>[Groups()]\<close>).
\<close>

definition monoid_laws :: "('a, 'i) crg \<Rightarrow> bool" where
  "monoid_laws G \<longleftrightarrow>
     (\<forall>x y z. mul G (mul G x y) z = mul G x (mul G y z)) \<and>
     (\<forall>x. mul G (one G) x = x) \<and>
     (\<forall>x. mul G x (one G) = x)"

subsection \<open>Concrete groups\<close>

text \<open>
  The symmetric group on three points, as \<^verbatim>\<open>ColoredPermutations(1,3)\<close> of the docstrings.
  A permutation is written in one-line notation, \<open>(p(1), p(2), p(3))\<close>; the product
  \<open>p * q\<close> applies \<open>p\<close> first (\<^verbatim>\<open>apply_simple_reflections([1,2])\<close> is \<^verbatim>\<open>[3, 1, 2]\<close> in the
  docstring of that method).
\<close>

datatype pt = P1 | P2 | P3

type_synonym perm = "pt \<times> pt \<times> pt"

fun ap :: "perm \<Rightarrow> pt \<Rightarrow> pt" where
  "ap (a, b, c) P1 = a"
| "ap (a, b, c) P2 = b"
| "ap (a, b, c) P3 = c"

definition compose :: "perm \<Rightarrow> perm \<Rightarrow> perm" where
  "compose p q = (ap q (ap p P1), ap q (ap p P2), ap q (ap p P3))"

definition perm_one :: perm where "perm_one = (P1, P2, P3)"
definition s1 :: perm where "s1 = (P2, P1, P3)"
definition s2 :: perm where "s2 = (P1, P3, P2)"
definition s121 :: perm where "s121 = (P3, P2, P1)"

definition fixed_points :: "perm \<Rightarrow> nat" where
  "fixed_points p = length (filter (\<lambda>x. ap p x = x) [P1, P2, P3])"

definition S3_reflection_length :: "perm \<Rightarrow> int label error + int" where
  "S3_reflection_length p =
     Inr (if fixed_points p = 3 then 0 else if fixed_points p = 1 then 1 else 2)"

text \<open>
  The concrete classes below look their reflections up in a dictionary; a label that is
  not a key raises \<^verbatim>\<open>KeyError\<close>.
\<close>

definition S3_simple_reflection :: "int label \<Rightarrow> int label error + perm" where
  "S3_simple_reflection = getitem [(Atom 1, s1), (Atom 2, s2)]"

definition S3_reflection :: "int label \<Rightarrow> int label error + perm" where
  "S3_reflection = getitem [(Atom 0, s1), (Atom 1, s2), (Atom 2, s121)]"

definition S3_reflection_from_1 :: "int label \<Rightarrow> int label error + perm" where
  "S3_reflection_from_1 = getitem [(Atom 1, s1), (Atom 2, s2), (Atom 3, s121)]"

definition S3_reflection_reordered :: "int label \<Rightarrow> int label error + perm" where
  "S3_reflection_reordered = getitem [(Atom 1, s1), (Atom 2, s121), (Atom 3, s2)]"

text \<open>
  \<open>S3\<close>: the class reimplements \<^verbatim>\<open>simple_reflection\<close> and keeps both defaults of the
  elements. Simple reflections are indexed by \<open>1, 2\<close>, hyperplanes and reflections by
  \<open>0, 1, 2\<close>.
\<close>

definition S3 :: "(perm, int label) crg" where
  "S3 = CRG perm_one compose [Atom 1, Atom 2]
     (Some S3_simple_reflection) None None
     (Some [Atom 0, Atom 1, Atom 2]) (Some S3_reflection)
     (Some [Atom 0, Atom 1, Atom 2]) (Some S3_reflection)
     (Some S3_reflection_length)
     None True"

text \<open>
  \<open>S3_right\<close>: the class reimplements \<^verbatim>\<open>apply_simple_reflection_right\<close> only, and
  \<^verbatim>\<open>simple_reflection\<close> is the category's default.
\<close>

definition S3_apply_right :: "perm \<Rightarrow> int label \<Rightarrow> int label error + perm" where
  "S3_apply_right p i =
     (case S3_simple_reflection i of Inl e \<Rightarrow> Inl e | Inr t \<Rightarrow> Inr (compose p t))"

definition S3_right :: "(perm, int label) crg" where
  "S3_right = CRG perm_one compose [Atom 1, Atom 2]
     None None (Some S3_apply_right)
     (Some [Atom 0, Atom 1, Atom 2]) (Some S3_reflection)
     (Some [Atom 0, Atom 1, Atom 2]) (Some S3_reflection)
     (Some S3_reflection_length)
     None True"

text \<open>
  \<open>S3_hyperplanes_from_1\<close>: as \<open>S3\<close>, with the hyperplanes labelled \<open>1, 2, 3\<close>
  (\<^verbatim>\<open>hyperplane_index_set=[1, 2, 3]\<close>) and the reflections still \<open>0, 1, 2\<close>.
\<close>

definition S3_hyperplanes_from_1 :: "(perm, int label) crg" where
  "S3_hyperplanes_from_1 = CRG perm_one compose [Atom 1, Atom 2]
     (Some S3_simple_reflection) None None
     (Some [Atom 1, Atom 2, Atom 3]) (Some S3_reflection_from_1)
     (Some [Atom 0, Atom 1, Atom 2]) (Some S3_reflection)
     (Some S3_reflection_length)
     None True"

text \<open>
  \<open>S3_from_1\<close>: as \<open>S3\<close>, with the hyperplanes and the reflections labelled \<open>1, 2, 3\<close>
  (\<^verbatim>\<open>reflection_index_set=[1, 2, 3]\<close>), so that the reflections labelled \<open>1\<close> and \<open>2\<close> are
  the simple reflections of these labels.
\<close>

definition S3_from_1 :: "(perm, int label) crg" where
  "S3_from_1 = CRG perm_one compose [Atom 1, Atom 2]
     (Some S3_simple_reflection) None None
     (Some [Atom 1, Atom 2, Atom 3]) (Some S3_reflection_from_1)
     (Some [Atom 1, Atom 2, Atom 3]) (Some S3_reflection_from_1)
     (Some S3_reflection_length)
     None True"

text \<open>
  \<open>S3_reordered\<close>: as \<open>S3_from_1\<close>, with the reflections listed in another order: the
  reflection labelled \<open>2\<close> is not the simple reflection labelled \<open>2\<close>.
\<close>

definition S3_reordered :: "(perm, int label) crg" where
  "S3_reordered = CRG perm_one compose [Atom 1, Atom 2]
     (Some S3_simple_reflection) None None
     (Some [Atom 1, Atom 2, Atom 3]) (Some S3_reflection_reordered)
     (Some [Atom 1, Atom 2, Atom 3]) (Some S3_reflection_reordered)
     (Some S3_reflection_length)
     None True"

text \<open>
  A reducible group, as \<^verbatim>\<open>ReflectionGroup((1,1,3), (1,1,3))\<close>: pairs of permutations,
  multiplied componentwise, with simple reflections \<open>1, 2\<close> in the first component and
  \<open>3, 4\<close> in the second. The class supplies its two irreducible components, the subgroups
  generated by \<open>1, 2\<close> and by \<open>3, 4\<close>, which are in the subcategory \<^verbatim>\<open>Irreducible\<close>.
\<close>

definition compose2 :: "perm \<times> perm \<Rightarrow> perm \<times> perm \<Rightarrow> perm \<times> perm" where
  "compose2 p q = (compose (fst p) (fst q), compose (snd p) (snd q))"

definition S3xS3_simple_reflection :: "int label \<Rightarrow> int label error + perm \<times> perm" where
  "S3xS3_simple_reflection =
     getitem [(Atom 1, (s1, perm_one)), (Atom 2, (s2, perm_one)),
              (Atom 3, (perm_one, s1)), (Atom 4, (perm_one, s2))]"

definition S3xS3_component :: "int label list \<Rightarrow> (perm \<times> perm, int label) crg" where
  "S3xS3_component I = CRG (perm_one, perm_one) compose2 I
     (Some S3xS3_simple_reflection) None None
     None None None None None
     None True"

definition S3xS3 :: "(perm \<times> perm, int label) crg" where
  "S3xS3 = CRG (perm_one, perm_one) compose2 [Atom 1, Atom 2, Atom 3, Atom 4]
     (Some S3xS3_simple_reflection) None None
     None None None None None
     (Some [S3xS3_component [Atom 1, Atom 2], S3xS3_component [Atom 3, Atom 4]]) False"

section \<open>Properties\<close>

subsection \<open>Helper lemmas\<close>

lemma ap_compose: "ap (compose p q) x = ap q (ap p x)"
  by (cases x) (simp_all add: compose_def)

lemma perm_eq_iff: "p = q \<longleftrightarrow> ap p P1 = ap q P1 \<and> ap p P2 = ap q P2 \<and> ap p P3 = ap q P3"
  by (cases p, cases q) auto

lemma compose_assoc: "compose (compose p q) r = compose p (compose q r)"
  by (simp add: perm_eq_iff ap_compose)

lemma compose_one_left: "compose perm_one p = p"
  by (simp add: perm_eq_iff ap_compose perm_one_def)

lemma compose_one_right: "compose p perm_one = p"
proof -
  have "ap perm_one x = x" for x by (cases x) (simp_all add: perm_one_def)
  then show ?thesis by (simp add: perm_eq_iff ap_compose)
qed

lemma monoid_laws_S3: "monoid_laws S3"
  by (simp add: monoid_laws_def S3_def compose_assoc compose_one_left compose_one_right)

subsection \<open>Empty words\<close>

text \<open>
  C2. For each of the word types \<^verbatim>\<open>'simple'\<close>, \<^verbatim>\<open>'distinguished'\<close> and \<^verbatim>\<open>'all'\<close>,
  \<^verbatim>\<open>from_word([], word_type)\<close> returns the identity of the group: the empty word yields
  the identity, whatever the recursion budget and whichever optional methods the group
  lacks.
\<close>

theorem from_word_empty:
  "from_word n G [] ''simple'' = Inr (one G)
   \<and> from_word n G [] ''distinguished'' = Inr (one G)
   \<and> from_word n G [] ''all'' = Inr (one G)"
  by (simp add: from_word_def)

text \<open>
  Any other word type reaches the \<^verbatim>\<open>return\<close> with \<^verbatim>\<open>f\<close> unbound, whatever the word.
\<close>

lemma from_word_other_word_type:
  "word_type \<notin> {''simple'', ''distinguished'', ''all''}
   \<Longrightarrow> from_word n G word word_type = Inl (UnboundLocalError ''f'')"
  by (simp add: from_word_def)

text \<open>
  C10. For every element \<open>x\<close> and every side, applying the empty word leaves \<open>x\<close>
  unchanged, for the simple, the distinguished and the general reflections alike.
\<close>

theorem apply_empty_word:
  "apply_simple_reflections n G x [] side = Inr x
   \<and> apply_distinguished_reflections G x [] side = Inr x
   \<and> apply_reflections G x [] side = Inr x"
  by simp

subsection \<open>Reflections among the elements\<close>

text \<open>
  C7. For every element \<open>t\<close> on which \<^verbatim>\<open>reflection_length\<close> is defined (the concrete
  group supplies it and it returns \<open>l\<close>), \<^verbatim>\<open>is_reflection(t)\<close> returns \<^verbatim>\<open>True\<close> exactly
  when \<open>l = 1\<close>.
\<close>

theorem is_reflection_iff_length_one:
  "reflection_length G t = Inr l \<Longrightarrow> is_reflection G t = Inr (l = 1)"
  by (simp add: is_reflection_def)

theorem is_reflection_iff_length_one_witness:
  "reflection_length S3 s1 = Inr 1 \<and> is_reflection S3 s1 = Inr True
   \<and> reflection_length S3 (compose s1 s2) = Inr 2
   \<and> is_reflection S3 (compose s1 s2) = Inr False"
proof -
  have a: "reflection_length S3 s1 = Inr 1"
    by (simp add: reflection_length_def S3_def S3_reflection_length_def fixed_points_def
        s1_def)
  have b: "reflection_length S3 (compose s1 s2) = Inr 2"
    by (simp add: reflection_length_def S3_def S3_reflection_length_def fixed_points_def
        s1_def s2_def compose_def)
  from is_reflection_iff_length_one [OF a] is_reflection_iff_length_one [OF b] a b
  show ?thesis by simp
qed

subsection \<open>Irreducibility\<close>

text \<open>
  C9. For a group whose class supplies the irreducible components \<open>cs\<close>, these are what
  \<^verbatim>\<open>irreducible_components()\<close> returns and \<^verbatim>\<open>is_irreducible()\<close> returns \<^verbatim>\<open>True\<close> exactly
  when \<open>cs\<close> has one member. For a group of the subcategory \<^verbatim>\<open>Irreducible\<close> whose class
  supplies none, the components are \<^verbatim>\<open>[self]\<close> and \<^verbatim>\<open>is_irreducible()\<close> returns
  \<^verbatim>\<open>True\<close>. And \<^verbatim>\<open>is_reducible()\<close> returns the negation of \<^verbatim>\<open>is_irreducible()\<close>.
\<close>

theorem is_irreducible_iff_one_component:
  "(irreducible_components_impl G = Some cs \<longrightarrow>
      irreducible_components G = Inr cs
      \<and> nr_irreducible_components G = Inr (int (length cs))
      \<and> is_irreducible G = Inr (length cs = 1))
   \<and> (irreducible_components_impl G = None \<and> Irreducible G \<longrightarrow>
      irreducible_components G = Inr [G] \<and> is_irreducible G = Inr True)
   \<and> (is_irreducible G = Inr b \<longrightarrow> is_reducible G = Inr (\<not> b))"
  by (simp add: is_reducible_def is_irreducible_def nr_irreducible_components_def
      irreducible_components_def)

theorem is_irreducible_iff_one_component_witness:
  "irreducible_components_impl S3xS3 =
     Some [S3xS3_component [Atom 1, Atom 2], S3xS3_component [Atom 3, Atom 4]]
   \<and> nr_irreducible_components S3xS3 = Inr 2
   \<and> is_irreducible S3xS3 = Inr False \<and> is_reducible S3xS3 = Inr True
   \<and> irreducible_components_impl S3 = None \<and> Irreducible S3
   \<and> irreducible_components S3 = Inr [S3]
   \<and> is_irreducible S3 = Inr True \<and> is_reducible S3 = Inr False"
proof -
  have a: "irreducible_components_impl S3xS3 =
      Some [S3xS3_component [Atom 1, Atom 2], S3xS3_component [Atom 3, Atom 4]]"
    by (simp add: S3xS3_def)
  have b: "irreducible_components_impl S3 = None \<and> Irreducible S3"
    by (simp add: S3_def)
  from is_irreducible_iff_one_component
      [of S3xS3 "[S3xS3_component [Atom 1, Atom 2], S3xS3_component [Atom 3, Atom 4]]" False]
    is_irreducible_iff_one_component [of S3 "[S3]" True] a b
  show ?thesis by simp
qed

subsection \<open>The typical element\<close>

lemma evaluate_all_total:
  "\<forall>i\<in>set I. f i = Inr (t i) \<Longrightarrow> evaluate_all f I = Inr (map t I)"
  by (induction I) simp_all

text \<open>
  C1 (as amended). In every group in which, for each label \<open>i\<close> of \<^verbatim>\<open>index_set()\<close>, the
  reflection that \<^verbatim>\<open>an_element()\<close> looks up is the simple reflection of \<open>i\<close>,
  \<^verbatim>\<open>an_element()\<close> returns the product of these reflections taken over \<^verbatim>\<open>index_set()\<close>, the
  index set of the simple reflections, in that index set's own order.
\<close>

theorem an_element_product_over_index_set:
  "\<forall>i\<in>set (index_set G). simple_reflection n G i = Inr (t i) \<and> reflection G i = Inr (t i)
   \<Longrightarrow> an_element G = Inr (foldl (mul G) (one G) (map t (index_set G)))"
  using evaluate_all_total [of "index_set G" "reflection G" t]
  by (simp add: an_element_def prod_def)

theorem an_element_product_over_index_set_witness:
  "index_set S3_from_1 = [Atom 1, Atom 2]
   \<and> simple_reflection 0 S3_from_1 (Atom 1) = Inr s1 \<and> reflection S3_from_1 (Atom 1) = Inr s1
   \<and> simple_reflection 0 S3_from_1 (Atom 2) = Inr s2 \<and> reflection S3_from_1 (Atom 2) = Inr s2
   \<and> an_element S3_from_1 = Inr (compose (compose perm_one s1) s2)
   \<and> compose (compose perm_one s1) s2 = (P3, P1, P2)"
proof -
  let ?t = "\<lambda>i. if i = Atom 1 then s1 else s2"
  have b: "index_set S3_from_1 = [Atom 1, Atom 2]
      \<and> simple_reflection 0 S3_from_1 (Atom 1) = Inr s1
      \<and> reflection S3_from_1 (Atom 1) = Inr s1
      \<and> simple_reflection 0 S3_from_1 (Atom 2) = Inr s2
      \<and> reflection S3_from_1 (Atom 2) = Inr s2"
    by (simp add: S3_from_1_def reflection_def S3_reflection_from_1_def
        simple_reflection.simps S3_simple_reflection_def getitem_def)
  then have a: "\<forall>i\<in>set (index_set S3_from_1).
      simple_reflection 0 S3_from_1 i = Inr (?t i) \<and> reflection S3_from_1 i = Inr (?t i)"
    by simp
  have c: "mul S3_from_1 = compose \<and> one S3_from_1 = perm_one"
    by (simp add: S3_from_1_def)
  have d: "compose (compose perm_one s1) s2 = (P3, P1, P2)"
    by (simp add: compose_def perm_one_def s1_def s2_def)
  from an_element_product_over_index_set [OF a] b c d
  show ?thesis by simp
qed

text \<open>
  C1 as stated fails: in \<open>S3_from_1\<close> the product over \<^verbatim>\<open>index_set()\<close>, which
  \<^verbatim>\<open>an_element()\<close> returns, is the rotation \<open>s1 * s2\<close>; the product over
  \<^verbatim>\<open>reflection_index_set()\<close> is \<open>s1 * s2 * s121\<close>, a transposition.
\<close>

theorem an_element_not_over_reflection_index_set:
  "an_element S3_from_1 = Inr (P3, P1, P2)
   \<and> an_element_over_reflection_index_set S3_from_1 = Inr (P1, P3, P2)
   \<and> an_element S3_from_1 \<noteq> an_element_over_reflection_index_set S3_from_1"
  by (simp add: an_element_def an_element_over_reflection_index_set_def
      reflection_index_set_def prod_def S3_from_1_def reflection_def
      S3_reflection_from_1_def getitem_def compose_def perm_one_def s1_def s2_def s121_def)

text \<open>
  Where the reflection looked up is not the simple reflection of the label, the value
  of \<^verbatim>\<open>an_element()\<close> is not the product of the simple reflections that its docstring
  names: in \<open>S3_reordered\<close> it is \<open>s1 * s121\<close>, and \<open>s1 * s2\<close> is another element.
\<close>

lemma an_element_at_S3_reordered:
  "simple_reflection 0 S3_reordered (Atom 2) = Inr s2
   \<and> reflection S3_reordered (Atom 2) = Inr s121
   \<and> an_element S3_reordered = Inr (P2, P3, P1)
   \<and> compose (compose perm_one s1) s2 = (P3, P1, P2)"
  by (simp add: an_element_def prod_def S3_reordered_def reflection_def
      S3_reflection_reordered_def simple_reflection.simps S3_simple_reflection_def
      getitem_def compose_def perm_one_def s1_def s2_def s121_def)

subsection \<open>Distinguished reflections\<close>

text \<open>
  On the right: for every label of the hyperplane index set,
  \<^verbatim>\<open>apply_distinguished_reflection(i, side='right')\<close> multiplies by the distinguished
  reflection.
\<close>

lemma apply_distinguished_reflection_right:
  "hyperplane_index_set G = Inr H \<Longrightarrow> i \<in> set H
   \<Longrightarrow> distinguished_reflection G i = Inr t
   \<Longrightarrow> apply_distinguished_reflection G x i ''right'' = Inr (mul G x t)"
  by (simp add: apply_distinguished_reflection_def)

text \<open>
  On the left the method consults \<^verbatim>\<open>reflection\<close>, not \<^verbatim>\<open>distinguished_reflection\<close>.
\<close>

lemma apply_distinguished_reflection_left:
  "hyperplane_index_set G = Inr H \<Longrightarrow> i \<in> set H \<Longrightarrow> side \<noteq> ''right''
   \<Longrightarrow> apply_distinguished_reflection G x i side =
       (case reflection G i of Inl e \<Rightarrow> Inl e | Inr t \<Rightarrow> Inr (mul G t x))"
  by (simp add: apply_distinguished_reflection_def)

text \<open>
  C4 at a failing input. In \<open>S3_hyperplanes_from_1\<close> the label \<open>1\<close> is in the hyperplane
  index set and its distinguished reflection is \<open>s1\<close>. Applied to \<open>s1\<close> on the left, the
  claim's \<^verbatim>\<open>distinguished_reflection(1) * s1\<close> is the identity; the method returns
  \<^verbatim>\<open>reflection(1) * s1\<close>, a rotation.
\<close>

theorem apply_distinguished_reflection_left_at_S3:
  "hyperplane_index_set S3_hyperplanes_from_1 = Inr [Atom 1, Atom 2, Atom 3]
   \<and> distinguished_reflection S3_hyperplanes_from_1 (Atom 1) = Inr (P2, P1, P3)
   \<and> mul S3_hyperplanes_from_1 (P2, P1, P3) (P2, P1, P3) = (P1, P2, P3)
   \<and> apply_distinguished_reflection S3_hyperplanes_from_1 (P2, P1, P3) (Atom 1) ''left''
       = Inr (P2, P3, P1)
   \<and> apply_distinguished_reflection S3_hyperplanes_from_1 (P2, P1, P3) (Atom 1) ''right''
       = Inr (P1, P2, P3)"
  by (simp add: apply_distinguished_reflection_def hyperplane_index_set_def
      distinguished_reflection_def reflection_def S3_hyperplanes_from_1_def
      S3_reflection_from_1_def S3_reflection_def getitem_def compose_def
      s1_def s2_def s121_def)

subsection \<open>Families\<close>

lemma Family_Nil: "Family [] f = Inr []"
  by (simp add: Family_def)

lemma Family_Cons:
  "Family (j # I) f =
     (case f j of
        Inl e \<Rightarrow> Inl e
      | Inr v \<Rightarrow> (case Family I f of Inl e \<Rightarrow> Inl e | Inr s \<Rightarrow> Inr ((j, v) # s)))"
  by (simp add: Family_def split: sum.splits)

lemma Family_getitem:
  "Family I f = Inr s \<Longrightarrow> i \<in> set I \<Longrightarrow> \<exists>t. f i = Inr t \<and> getitem s i = Inr t"
proof (induction I arbitrary: s)
  case Nil
  then show ?case by simp
next
  case (Cons j I)
  from Cons.prems(1) obtain v s' where
    v: "f j = Inr v" and s': "Family I f = Inr s'" and s: "s = (j, v) # s'"
    by (auto simp add: Family_Cons split: sum.splits)
  show ?case
  proof (cases "i = j")
    case True
    with v s show ?thesis by (simp add: getitem_def)
  next
    case False
    with Cons.prems(2) have "i \<in> set I" by simp
    from Cons.IH [OF s' this] obtain t where "f i = Inr t" "getitem s' i = Inr t"
      by blast
    with False s show ?thesis by (simp add: getitem_def)
  qed
qed

lemma Family_getitem_absent:
  "Family I f = Inr s \<Longrightarrow> i \<notin> set I \<Longrightarrow> getitem s i = Inl (KeyError i)"
proof (induction I arbitrary: s)
  case Nil
  then show ?case by (simp add: Family_Nil getitem_def)
next
  case (Cons j I)
  from Cons.prems(1) obtain v s' where
    s': "Family I f = Inr s'" and s: "s = (j, v) # s'"
    by (auto simp add: Family_Cons split: sum.splits)
  from Cons.prems(2) have "i \<noteq> j" "i \<notin> set I" by simp_all
  with Cons.IH [OF s'] s show ?case by (simp add: getitem_def)
qed

lemma Family_total:
  "\<forall>i\<in>set I. \<exists>t. f i = Inr t \<Longrightarrow> \<exists>s. Family I f = Inr s"
proof (induction I)
  case Nil
  then show ?case by (simp add: Family_Nil)
next
  case (Cons j I)
  then obtain v s where "f j = Inr v" "Family I f = Inr s" by auto
  then show ?case by (simp add: Family_Cons)
qed

subsection \<open>When the simple reflections return\<close>

text \<open>
  A class that reimplements \<^verbatim>\<open>simple_reflection\<close> is asked directly, with any budget.
\<close>

lemma simple_reflection_reimplemented:
  "simple_reflection_impl G = Some f \<Longrightarrow> simple_reflection n G i = f i"
  by (simp add: simple_reflection.simps)

text \<open>
  With the default \<^verbatim>\<open>simple_reflection\<close> and a reimplemented
  \<^verbatim>\<open>apply_simple_reflection_right\<close>, one level of the budget is enough.
\<close>

lemma simple_reflection_by_right:
  "simple_reflection_impl G = None \<Longrightarrow> apply_simple_reflection_right_impl G = Some r
   \<Longrightarrow> simple_reflection (Suc n) G i = r (one G) i"
  by (simp add: simple_reflection.simps apply_simple_reflection.simps
      apply_simple_reflection_right.simps side_default_def)

text \<open>
  With neither of them reimplemented and a label to look up, no budget is enough: the
  defaults call each other for ever.
\<close>

lemma simple_reflection_never_returns:
  "simple_reflection_impl G = None \<Longrightarrow> apply_simple_reflection_right_impl G = None
   \<Longrightarrow> index_set G = j # I
   \<Longrightarrow> simple_reflection n G i = Inl RecursionDepthExceeded"
proof (induction n arbitrary: i)
  case 0
  then show ?case by (simp add: simple_reflection.simps)
next
  case (Suc n)
  from Suc.IH [OF Suc.prems] have "simple_reflection n G j = Inl RecursionDepthExceeded" .
  with Suc.prems have "simple_reflections n G = Inl RecursionDepthExceeded"
    by (simp add: simple_reflections.simps Family_Cons)
  with Suc.prems show ?case
    by (simp add: simple_reflection.simps apply_simple_reflection.simps
        apply_simple_reflection_right.simps side_default_def)
qed

text \<open>
  So the family of simple reflections is built at every budget by a class that
  reimplements \<^verbatim>\<open>simple_reflection\<close>, and at every budget but the empty one by a class
  that reimplements \<^verbatim>\<open>apply_simple_reflection_right\<close>, when the reimplemented method
  returns on the index set.
\<close>

lemma simple_reflections_built:
  assumes "simple_reflection_impl G = Some f"
    and "\<forall>i\<in>set (index_set G). \<exists>t. f i = Inr t"
  shows "\<exists>s. simple_reflections n G = Inr s"
proof -
  have "simple_reflection n G = f"
    by (simp add: fun_eq_iff simple_reflection_reimplemented [OF assms(1)])
  with Family_total [OF assms(2)] show ?thesis
    by (simp add: simple_reflections.simps)
qed

lemma simple_reflections_built_by_right:
  assumes "simple_reflection_impl G = None"
    and "apply_simple_reflection_right_impl G = Some r"
    and "\<forall>i\<in>set (index_set G). \<exists>t. r (one G) i = Inr t"
  shows "\<exists>s. simple_reflections (Suc n) G = Inr s"
proof -
  have "simple_reflection (Suc n) G = r (one G)"
    by (simp add: fun_eq_iff simple_reflection_by_right [OF assms(1,2)])
  with Family_total [OF assms(3)] show ?thesis
    by (simp add: simple_reflections.simps)
qed

text \<open>
  C6. For every group and recursion budget at which the single-index lookup returns on
  the index set, the family \<^verbatim>\<open>simple_reflections()\<close> is built, and for every label \<open>i\<close>
  of the index set \<^verbatim>\<open>simple_reflections()[i]\<close> is \<^verbatim>\<open>simple_reflection(i)\<close>.
\<close>

theorem simple_reflections_getitem:
  "\<forall>i\<in>set (index_set G). \<exists>t. simple_reflection n G i = Inr t
   \<Longrightarrow> \<exists>s. simple_reflections n G = Inr s
         \<and> (\<forall>i\<in>set (index_set G). getitem s i = simple_reflection n G i)"
proof -
  assume total: "\<forall>i\<in>set (index_set G). \<exists>t. simple_reflection n G i = Inr t"
  from Family_total [OF total] obtain s where
    s: "Family (index_set G) (\<lambda>i. simple_reflection n G i) = Inr s" by blast
  have "getitem s i = simple_reflection n G i" if "i \<in> set (index_set G)" for i
    using Family_getitem [OF s that] by auto
  with s show ?thesis by (auto simp add: simple_reflections.simps)
qed

theorem simple_reflections_getitem_witness:
  "index_set S3_right = [Atom 1, Atom 2]
   \<and> simple_reflection 1 S3_right (Atom 1) = Inr s1
   \<and> simple_reflection 1 S3_right (Atom 2) = Inr s2
   \<and> (\<exists>s. simple_reflections 1 S3_right = Inr s
          \<and> getitem s (Atom 1) = Inr s1 \<and> getitem s (Atom 2) = Inr s2)"
proof -
  have sr: "simple_reflection 1 S3_right i = S3_apply_right perm_one i" for i
    using simple_reflection_by_right [of S3_right S3_apply_right 0 i]
    by (simp add: S3_right_def)
  have I: "index_set S3_right = [Atom 1, Atom 2]" by (simp add: S3_right_def)
  have v: "simple_reflection 1 S3_right (Atom 1) = Inr s1
      \<and> simple_reflection 1 S3_right (Atom 2) = Inr s2"
    using sr [of "Atom 1"] sr [of "Atom 2"]
    by (simp add: S3_apply_right_def S3_simple_reflection_def getitem_def compose_one_left)
  have total: "\<forall>i\<in>set (index_set S3_right). \<exists>t. simple_reflection 1 S3_right i = Inr t"
  proof
    fix i
    assume "i \<in> set (index_set S3_right)"
    then have "i = Atom 1 \<or> i = Atom 2" by (simp add: I)
    with v show "\<exists>t. simple_reflection 1 S3_right i = Inr t" by blast
  qed
  from simple_reflections_getitem [OF total] I v show ?thesis by auto
qed

subsection \<open>The default element primitives\<close>

lemma default_right:
  "apply_simple_reflection_right_impl G = None \<Longrightarrow> simple_reflections n G = Inr s
   \<Longrightarrow> apply_simple_reflection_right n G x i =
       (case getitem s i of Inl e \<Rightarrow> Inl e | Inr t \<Rightarrow> Inr (mul G x t))"
  by (simp add: apply_simple_reflection_right.simps)

lemma default_left:
  "apply_simple_reflection_left_impl G = None \<Longrightarrow> simple_reflections n G = Inr s
   \<Longrightarrow> apply_simple_reflection_left n G x i =
       (case getitem s i of Inl e \<Rightarrow> Inl e | Inr t \<Rightarrow> Inr (mul G t x))"
  by (simp add: apply_simple_reflection_left.simps)

lemma simple_reflections_member:
  "simple_reflections n G = Inr s \<Longrightarrow> i \<in> set (index_set G) \<Longrightarrow> \<exists>t. getitem s i = Inr t"
  using Family_getitem [of "index_set G" "\<lambda>i. simple_reflection n G i" s i]
  by (auto simp add: simple_reflections.simps)

lemma simple_reflections_absent:
  "simple_reflections n G = Inr s \<Longrightarrow> i \<notin> set (index_set G)
   \<Longrightarrow> getitem s i = Inl (KeyError i)"
  using Family_getitem_absent [of "index_set G" "\<lambda>i. simple_reflection n G i" s i]
  by (simp add: simple_reflections.simps)

text \<open>
  C8. Let the family \<^verbatim>\<open>simple_reflections()\<close> be \<open>s\<close> and \<open>i\<close> a label of the index set.
  Then \<open>s[i]\<close> exists; the default \<^verbatim>\<open>apply_simple_reflection_right(i)\<close> of an element \<open>x\<close>
  returns \<open>x * s[i]\<close> and the default \<^verbatim>\<open>apply_simple_reflection_left(i)\<close> returns
  \<open>s[i] * x\<close>; and \<^verbatim>\<open>apply_simple_reflection(i, side)\<close> is the right variant for the side
  \<^verbatim>\<open>'right'\<close>, which is the default of \<^verbatim>\<open>side\<close>, and the left variant for \<^verbatim>\<open>'left'\<close>.
\<close>

theorem default_element_primitives:
  assumes "simple_reflections n G = Inr s" and "i \<in> set (index_set G)"
  shows "\<exists>t. getitem s i = Inr t
     \<and> (apply_simple_reflection_right_impl G = None \<longrightarrow>
          apply_simple_reflection_right n G x i = Inr (mul G x t))
     \<and> (apply_simple_reflection_left_impl G = None \<longrightarrow>
          apply_simple_reflection_left n G x i = Inr (mul G t x))
     \<and> apply_simple_reflection n G x i ''right'' = apply_simple_reflection_right n G x i
     \<and> apply_simple_reflection n G x i side_default = apply_simple_reflection_right n G x i
     \<and> apply_simple_reflection n G x i ''left'' = apply_simple_reflection_left n G x i"
proof -
  from simple_reflections_member [OF assms] obtain t where t: "getitem s i = Inr t" ..
  have "apply_simple_reflection_right n G x i = Inr (mul G x t)"
    if "apply_simple_reflection_right_impl G = None"
    using default_right [OF that assms(1)] t by simp
  moreover have "apply_simple_reflection_left n G x i = Inr (mul G t x)"
    if "apply_simple_reflection_left_impl G = None"
    using default_left [OF that assms(1)] t by simp
  ultimately show ?thesis
    using t by (simp add: apply_simple_reflection.simps side_default_def)
qed

theorem default_element_primitives_witness:
  "simple_reflections 0 S3 = Inr [(Atom 1, s1), (Atom 2, s2)]
   \<and> Atom 2 \<in> set (index_set S3)
   \<and> apply_simple_reflection_right_impl S3 = None
   \<and> apply_simple_reflection_left_impl S3 = None
   \<and> apply_simple_reflection_right 0 S3 s1 (Atom 2) = Inr (compose s1 s2)
   \<and> apply_simple_reflection_left 0 S3 s1 (Atom 2) = Inr (compose s2 s1)
   \<and> apply_simple_reflection 0 S3 s1 (Atom 2) ''right'' = Inr (compose s1 s2)
   \<and> apply_simple_reflection 0 S3 s1 (Atom 2) ''left'' = Inr (compose s2 s1)
   \<and> compose s1 s2 = (P3, P1, P2) \<and> compose s2 s1 = (P2, P3, P1)"
proof -
  have a: "simple_reflections 0 S3 = Inr [(Atom 1, s1), (Atom 2, s2)]"
    by (simp add: simple_reflections.simps simple_reflection.simps Family_Cons Family_Nil
        S3_def S3_simple_reflection_def getitem_def)
  have b: "Atom 2 \<in> set (index_set S3)" by (simp add: S3_def)
  have c: "apply_simple_reflection_right_impl S3 = None
      \<and> apply_simple_reflection_left_impl S3 = None \<and> mul S3 = compose"
    by (simp add: S3_def)
  have d: "compose s1 s2 = (P3, P1, P2) \<and> compose s2 s1 = (P2, P3, P1)"
    by (simp add: compose_def s1_def s2_def)
  from default_element_primitives [OF a b, of s1] a b c d
  show ?thesis by (simp add: getitem_def)
qed

subsection \<open>Words over the simple reflections\<close>

lemma foldl_mul:
  "monoid_laws G \<Longrightarrow> foldl (mul G) x ys = mul G x (foldl (mul G) (one G) ys)"
proof (induction ys arbitrary: x)
  case Nil
  then show ?case by (simp add: monoid_laws_def)
next
  case (Cons y ys)
  have "foldl (mul G) x (y # ys) = mul G (mul G x y) (foldl (mul G) (one G) ys)"
    using Cons.IH [OF Cons.prems, of "mul G x y"] by simp
  moreover have "foldl (mul G) (one G) (y # ys) = mul G y (foldl (mul G) (one G) ys)"
    using Cons.IH [OF Cons.prems, of y] Cons.prems by (simp add: monoid_laws_def)
  ultimately show ?case using Cons.prems by (simp add: monoid_laws_def)
qed

lemma apply_simple_reflections_right_fold:
  "\<forall>x. \<forall>i\<in>set (index_set G). apply_simple_reflection_right n G x i = Inr (mul G x (g i))
   \<Longrightarrow> set w \<subseteq> set (index_set G)
   \<Longrightarrow> apply_simple_reflections n G x w ''right'' = Inr (foldl (mul G) x (map g w))"
  by (induction w arbitrary: x) (simp_all add: apply_simple_reflection.simps)

text \<open>
  C3. In a group whose right primitive multiplies by the generators (for every element
  \<open>x\<close> and label \<open>i\<close> of the index set, \<^verbatim>\<open>x.apply_simple_reflection_right(i)\<close> is
  \<open>x * g i\<close>), for all words \<open>w1\<close> and \<open>w2\<close> over the simple index set the three words
  \<open>w1\<close>, \<open>w2\<close> and \<open>w1 + w2\<close> evaluate, and
  \<^verbatim>\<open>from_word(w1 + w2) == from_word(w1) * from_word(w2)\<close>.
\<close>

theorem from_word_concatenation:
  assumes "monoid_laws G"
    and "\<forall>x. \<forall>i\<in>set (index_set G).
           apply_simple_reflection_right n G x i = Inr (mul G x (g i))"
    and "set w1 \<subseteq> set (index_set G)" and "set w2 \<subseteq> set (index_set G)"
  shows "\<exists>a b. from_word n G w1 ''simple'' = Inr a \<and> from_word n G w2 ''simple'' = Inr b
     \<and> from_word n G (w1 @ w2) ''simple'' = Inr (mul G a b)"
proof -
  let ?p = "\<lambda>w. foldl (mul G) (one G) (map g w)"
  have ev: "from_word n G w ''simple'' = Inr (?p w)" if "set w \<subseteq> set (index_set G)" for w
    using apply_simple_reflections_right_fold [OF assms(2) that, of "one G"]
    by (simp add: from_word_def)
  have "?p (w1 @ w2) = mul G (?p w1) (?p w2)"
    using foldl_mul [OF assms(1), of "?p w1" "map g w2"] by simp
  moreover have "set (w1 @ w2) \<subseteq> set (index_set G)" using assms(3,4) by simp
  ultimately show ?thesis using ev [OF assms(3)] ev [OF assms(4)] ev [of "w1 @ w2"]
    by simp
qed

text \<open>
  The hypothesis on the right primitive holds for the default one, once the family of
  simple reflections is built.
\<close>

lemma default_right_multiplies:
  assumes "apply_simple_reflection_right_impl G = None"
    and "simple_reflections n G = Inr s"
  shows "\<forall>x. \<forall>i\<in>set (index_set G).
    apply_simple_reflection_right n G x i = Inr (mul G x (the (map_of s i)))"
proof (intro allI ballI)
  fix x i
  assume "i \<in> set (index_set G)"
  from simple_reflections_member [OF assms(2) this] obtain t where
    t: "getitem s i = Inr t" ..
  then have "map_of s i = Some t" by (simp add: getitem_def split: option.splits)
  with default_right [OF assms] t
  show "apply_simple_reflection_right n G x i = Inr (mul G x (the (map_of s i)))" by simp
qed

lemma S3_fields:
  "one S3 = perm_one" "mul S3 = compose" "index_set S3 = [Atom 1, Atom 2]"
  "apply_simple_reflection_right_impl S3 = None"
  "apply_simple_reflection_left_impl S3 = None"
  "hyperplane_index_set S3 = Inr [Atom 0, Atom 1, Atom 2]"
  "reflection_index_set S3 = Inr [Atom 0, Atom 1, Atom 2]"
  "distinguished_reflection S3 = S3_reflection" "reflection S3 = S3_reflection"
  by (simp_all add: S3_def hyperplane_index_set_def reflection_index_set_def
      distinguished_reflection_def reflection_def fun_eq_iff)

lemma simple_reflections_S3: "simple_reflections n S3 = Inr [(Atom 1, s1), (Atom 2, s2)]"
  by (simp add: simple_reflections.simps simple_reflection.simps Family_Cons Family_Nil
      S3_def S3_simple_reflection_def getitem_def)

theorem from_word_concatenation_witness:
  "monoid_laws S3 \<and> set (map Atom [1, 2, 1]) \<subseteq> set (index_set S3)
   \<and> set (map Atom [2, 1, 2]) \<subseteq> set (index_set S3)
   \<and> from_word 0 S3 (map Atom [1, 2, 1]) ''simple'' = Inr (P3, P2, P1)
   \<and> from_word 0 S3 (map Atom [2, 1, 2]) ''simple'' = Inr (P3, P2, P1)
   \<and> from_word 0 S3 (map Atom [1, 2, 1] @ map Atom [2, 1, 2]) ''simple''
       = Inr (mul S3 (P3, P2, P1) (P3, P2, P1))
   \<and> mul S3 (P3, P2, P1) (P3, P2, P1) = (P1, P2, P3)"
proof -
  note g = default_right_multiplies [OF S3_fields(4) simple_reflections_S3, of 0]
  have w: "set (map Atom [1, 2, 1]) \<subseteq> set (index_set S3)"
    "set (map Atom [2, 1, 2]) \<subseteq> set (index_set S3)"
    by (simp_all add: S3_fields)
  have ev: "from_word 0 S3 (map Atom [1, 2, 1]) ''simple'' = Inr (P3, P2, P1)"
    "from_word 0 S3 (map Atom [2, 1, 2]) ''simple'' = Inr (P3, P2, P1)"
    by (simp_all add: from_word_def apply_simple_reflection.simps
        default_right [OF S3_fields(4) simple_reflections_S3] getitem_def S3_fields
        compose_def perm_one_def s1_def s2_def)
  have m: "mul S3 (P3, P2, P1) (P3, P2, P1) = (P1, P2, P3)"
    by (simp add: S3_fields compose_def)
  from from_word_concatenation [OF monoid_laws_S3 g w] ev m monoid_laws_S3 w
  show ?thesis by simp
qed

subsection \<open>Labels outside the index set\<close>

text \<open>
  What \<^verbatim>\<open>apply_distinguished_reflections\<close> and \<^verbatim>\<open>apply_reflections\<close> raise at the first
  label outside their index set: the \<^verbatim>\<open>ValueError\<close> whose message shows the label, or the
  \<^verbatim>\<open>TypeError\<close> of the formatting when the label is a tuple of no or several values.
\<close>

lemma apply_distinguished_reflections_first_absent:
  assumes "hyperplane_index_set G = Inr H"
    and "\<forall>j\<in>set H. \<exists>t. distinguished_reflection G j = Inr t"
  shows "find (\<lambda>j. j \<notin> set H) word = Some i
    \<Longrightarrow> apply_distinguished_reflections G x word ''right'' =
        (case format_argument i of
           Inl e \<Rightarrow> Inl e
         | Inr a \<Rightarrow> Inl (ValueError a ''the given index %s is not an index of a hyperplane''))"
proof (induction word arbitrary: x)
  case Nil
  then show ?case by simp
next
  case (Cons j word)
  show ?case
  proof (cases "j \<in> set H")
    case True
    with assms(2) obtain t where "distinguished_reflection G j = Inr t" by blast
    with True assms(1) have "apply_distinguished_reflection G x j ''right'' = Inr (mul G x t)"
      by (simp add: apply_distinguished_reflection_def)
    moreover from True Cons.prems have "find (\<lambda>j. j \<notin> set H) word = Some i" by simp
    ultimately show ?thesis using Cons.IH [of "mul G x t"] by simp
  next
    case False
    with Cons.prems have "i = j" by simp
    with False assms(1) show ?thesis
      by (simp add: apply_distinguished_reflection_def split: sum.splits)
  qed
qed

lemma apply_reflections_first_absent:
  assumes "reflection_index_set G = Inr R"
    and "\<forall>j\<in>set R. \<exists>t. reflection G j = Inr t"
  shows "find (\<lambda>j. j \<notin> set R) word = Some i
    \<Longrightarrow> apply_reflections G x word ''right'' =
        (case format_argument i of
           Inl e \<Rightarrow> Inl e
         | Inr a \<Rightarrow> Inl (ValueError a ''the given index %s is not an index of a reflection''))"
proof (induction word arbitrary: x)
  case Nil
  then show ?case by simp
next
  case (Cons j word)
  show ?case
  proof (cases "j \<in> set R")
    case True
    with assms(2) obtain t where "reflection G j = Inr t" by blast
    with True assms(1) have "apply_reflection G x j ''right'' = Inr (mul G x t)"
      by (simp add: apply_reflection_def)
    moreover from True Cons.prems have "find (\<lambda>j. j \<notin> set R) word = Some i" by simp
    ultimately show ?thesis using Cons.IH [of "mul G x t"] by simp
  next
    case False
    with Cons.prems have "i = j" by simp
    with False assms(1) show ?thesis
      by (simp add: apply_reflection_def split: sum.splits)
  qed
qed

lemma apply_simple_reflections_first_absent:
  assumes "apply_simple_reflection_right_impl G = None"
    and "simple_reflections n G = Inr s"
  shows "find (\<lambda>j. j \<notin> set (index_set G)) word = Some i
    \<Longrightarrow> apply_simple_reflections n G x word ''right'' = Inl (KeyError i)"
proof (induction word arbitrary: x)
  case Nil
  then show ?case by simp
next
  case (Cons j word)
  show ?case
  proof (cases "j \<in> set (index_set G)")
    case True
    from simple_reflections_member [OF assms(2) True] obtain t where
      "getitem s j = Inr t" ..
    with default_right [OF assms]
    have "apply_simple_reflection n G x j ''right'' = Inr (mul G x t)"
      by (simp add: apply_simple_reflection.simps)
    moreover from True Cons.prems
    have "find (\<lambda>j. j \<notin> set (index_set G)) word = Some i" by simp
    ultimately show ?thesis using Cons.IH [of "mul G x t"] by simp
  next
    case False
    with Cons.prems have "i = j" by simp
    with simple_reflections_absent [OF assms(2) False] default_right [OF assms]
    show ?thesis by (simp add: apply_simple_reflection.simps)
  qed
qed

text \<open>
  C5 (as amended). Let \<open>i\<close> be the first label of a word that is absent from the index
  set of the word type. For \<^verbatim>\<open>'distinguished'\<close> and \<^verbatim>\<open>'all'\<close>, with the index set supplied,
  the reflections of its labels available and \<open>i\<close> not a tuple, evaluating the word fails
  with the \<^verbatim>\<open>ValueError\<close> that carries \<open>i\<close> and says which index set it is not in (of a
  hyperplane, of a reflection); the membership test comes before the reflection of \<open>i\<close>
  is looked up or multiplied, so the result is the same whatever that lookup would do.
  For \<^verbatim>\<open>'simple'\<close> there is no membership test: with the default right primitive the
  failure is the \<^verbatim>\<open>KeyError\<close> of the family \<^verbatim>\<open>simple_reflections()\<close>, which carries \<open>i\<close>
  alone.
\<close>

theorem from_word_absent_label:
  "(hyperplane_index_set G = Inr H
      \<and> (\<forall>j\<in>set H. \<exists>t. distinguished_reflection G j = Inr t)
      \<and> find (\<lambda>j. j \<notin> set H) word = Some (Atom v)
    \<longrightarrow> from_word n G word ''distinguished'' =
          Inl (ValueError (Atom v) ''the given index %s is not an index of a hyperplane''))
   \<and> (reflection_index_set G = Inr R
      \<and> (\<forall>j\<in>set R. \<exists>t. reflection G j = Inr t)
      \<and> find (\<lambda>j. j \<notin> set R) word = Some (Atom v)
    \<longrightarrow> from_word n G word ''all'' =
          Inl (ValueError (Atom v) ''the given index %s is not an index of a reflection''))
   \<and> (apply_simple_reflection_right_impl G = None
      \<and> simple_reflections n G = Inr s
      \<and> find (\<lambda>j. j \<notin> set (index_set G)) word = Some i
    \<longrightarrow> from_word n G word ''simple'' = Inl (KeyError i))"
  using apply_distinguished_reflections_first_absent [of G H word "Atom v" "one G"]
    apply_reflections_first_absent [of G R word "Atom v" "one G"]
    apply_simple_reflections_first_absent [of G n s word i "one G"]
  by (simp add: from_word_def)

theorem from_word_absent_label_witness:
  "hyperplane_index_set S3 = Inr [Atom 0, Atom 1, Atom 2]
   \<and> reflection_index_set S3 = Inr [Atom 0, Atom 1, Atom 2]
   \<and> index_set S3 = [Atom 1, Atom 2] \<and> apply_simple_reflection_right_impl S3 = None
   \<and> from_word 0 S3 (map Atom [0, 5, 1]) ''distinguished'' =
       Inl (ValueError (Atom 5) ''the given index %s is not an index of a hyperplane'')
   \<and> from_word 0 S3 (map Atom [2, 9]) ''all'' =
       Inl (ValueError (Atom 9) ''the given index %s is not an index of a reflection'')
   \<and> from_word 0 S3 (map Atom [2, 3, 1]) ''simple'' = Inl (KeyError (Atom 3))"
proof -
  have tot: "\<forall>j\<in>set [Atom 0, Atom 1, Atom 2]. \<exists>t. S3_reflection j = Inr t"
    by (simp add: S3_reflection_def getitem_def s1_def s2_def s121_def)
  have d: "from_word 0 S3 (map Atom [0, 5, 1]) ''distinguished'' =
      Inl (ValueError (Atom 5) ''the given index %s is not an index of a hyperplane'')"
    using from_word_absent_label
      [where G = S3 and H = "[Atom 0, Atom 1, Atom 2]" and word = "map Atom [0, 5, 1]"
        and v = 5 and n = 0] tot
    by (simp add: S3_fields)
  have a: "from_word 0 S3 (map Atom [2, 9]) ''all'' =
      Inl (ValueError (Atom 9) ''the given index %s is not an index of a reflection'')"
    using from_word_absent_label
      [where G = S3 and R = "[Atom 0, Atom 1, Atom 2]" and word = "map Atom [2, 9]"
        and v = 9 and n = 0] tot
    by (simp add: S3_fields)
  have s: "from_word 0 S3 (map Atom [2, 3, 1]) ''simple'' = Inl (KeyError (Atom 3))"
    using from_word_absent_label
      [where G = S3 and s = "[(Atom 1, s1), (Atom 2, s2)]"
        and word = "map Atom [2, 3, 1]" and i = "Atom 3" and n = 0]
    by (simp add: S3_fields simple_reflections_S3)
  from d a s show ?thesis by (simp add: S3_fields)
qed

text \<open>
  A tuple label outside the index set: a tuple of one value is reported as that value,
  any other tuple ends the evaluation in the \<^verbatim>\<open>TypeError\<close> of the formatting.
\<close>

lemma from_word_absent_tuple_label:
  assumes "reflection_index_set G = Inr R"
    and "\<forall>j\<in>set R. \<exists>t. reflection G j = Inr t"
    and "find (\<lambda>j. j \<notin> set R) word = Some (Tuple as)"
  shows "from_word n G word ''all'' =
    (case as of
       [] \<Rightarrow> Inl (TypeError ''not enough arguments for format string'')
     | [a] \<Rightarrow> Inl (ValueError a ''the given index %s is not an index of a reflection'')
     | a # b # cs \<Rightarrow>
         Inl (TypeError ''not all arguments converted during string formatting''))"
  using apply_reflections_first_absent [OF assms, of "one G"]
  by (simp add: from_word_def split: list.splits)

text \<open>
  C5 as stated fails. For \<^verbatim>\<open>'simple'\<close>: in \<open>S3\<close>, whose simple reflections are indexed
  by \<open>1, 2\<close>, the word \<open>[1, 7]\<close> fails with the key error of the family, which names no
  index set. For \<^verbatim>\<open>'all'\<close>: the word \<open>[2, (1, 2)]\<close>, whose second label is a tuple and not
  in the reflection index set, fails with the type error of the formatting, which
  names neither the label nor the index set.
\<close>

theorem from_word_simple_absent_label_at_S3:
  "index_set S3 = [Atom 1, Atom 2]
   \<and> from_word 0 S3 [Atom 1] ''simple'' = Inr (P2, P1, P3)
   \<and> from_word 0 S3 [Atom 1, Atom 7] ''simple'' = Inl (KeyError (Atom 7))
   \<and> reflection_index_set S3 = Inr [Atom 0, Atom 1, Atom 2]
   \<and> from_word 0 S3 [Atom 2] ''all'' = Inr (P3, P2, P1)
   \<and> from_word 0 S3 [Atom 2, Tuple [Atom 1, Atom 2]] ''all'' =
       Inl (TypeError ''not all arguments converted during string formatting'')"
  by (simp add: from_word_def apply_simple_reflection.simps
      default_right [OF S3_fields(4) simple_reflections_S3] getitem_def S3_fields
      apply_reflection_def S3_reflection_def
      compose_def perm_one_def s1_def s2_def s121_def)

end
